theory Spec2Isabelle
  imports Main "HOL-Library.AList"
begin

section \<open>JavaScript values and the argument boundary\<close>

text \<open>
  The values that cross the plugin boundary of \<^verbatim>\<open>src/electron/File.js\<close>.
  Strings are byte strings; numbers are the integers the operations use as
  positions and sizes; an object is its list of own properties.
\<close>

datatype jsval =
    JUndef
  | JNull
  | JBool bool
  | JNum int
  | JNaN
  | JStr string
  | JArr "jsval list"
  | JObj "(string \<times> jsval) list"

text \<open>\<^verbatim>\<open>Array.isArray\<close>.\<close>

fun isArray :: "jsval \<Rightarrow> bool" where
  "isArray (JArr xs) = True"
| "isArray v = False"

text \<open>\<^verbatim>\<open>args[i]\<close>: an index outside the array, or into a value that is no array, reads undefined.\<close>

fun js_index :: "jsval \<Rightarrow> nat \<Rightarrow> jsval" where
  "js_index (JArr xs) i = (if i < length xs then xs ! i else JUndef)"
| "js_index v i = JUndef"

text \<open>\<^verbatim>\<open>obj.key\<close> on a value that has been defaulted to an object: a missing property reads undefined.\<close>

fun js_get :: "jsval \<Rightarrow> string \<Rightarrow> jsval" where
  "js_get (JObj ps) k = (case map_of ps k of Some v \<Rightarrow> v | None \<Rightarrow> JUndef)"
| "js_get v k = JUndef"

text \<open>The falsy values of JavaScript, as \<^verbatim>\<open>!data\<close> and \<^verbatim>\<open>args[2] || {}\<close> test them.\<close>

fun falsy :: "jsval \<Rightarrow> bool" where
  "falsy JUndef = True"
| "falsy JNull = True"
| "falsy (JBool b) = (\<not> b)"
| "falsy (JNum n) = (n = 0)"
| "falsy JNaN = True"
| "falsy (JStr s) = (s = [])"
| "falsy (JArr xs) = False"
| "falsy (JObj ps) = False"

text \<open>
  \<^verbatim>\<open>getArgs\<close> (lines 46 to 53): a one-element array whose element is an array
  is replaced by that element; everything else is returned as it came.
\<close>

fun js_length :: "jsval \<Rightarrow> nat" where
  "js_length (JArr xs) = length xs"
| "js_length v = 0"

definition getArgs :: "jsval \<Rightarrow> jsval" where
  "getArgs args =
     (if isArray args \<and> js_length args = 1 \<and> isArray (js_index args 0)
      then js_index args 0
      else args)"

section \<open>Paths and strings\<close>

text \<open>Decimal digits of a number, for the string conversion of \<^verbatim>\<open>+\<close>.\<close>

fun show_nat :: "nat \<Rightarrow> string" where
  "show_nat n =
     (if n < 10 then [char_of (48 + n)]
      else show_nat (n div 10) @ [char_of (48 + n mod 10)])"

definition show_int :: "int \<Rightarrow> string" where
  "show_int i = (if i < 0 then CHR ''-'' # show_nat (nat (- i)) else show_nat (nat i))"

fun join_comma :: "string list \<Rightarrow> string" where
  "join_comma [] = []"
| "join_comma [s] = s"
| "join_comma (s # t # ss) = s @ '','' @ join_comma (t # ss)"

text \<open>\<^verbatim>\<open>ToString\<close>: an array joins its elements with commas, undefined and null elements empty.\<close>

fun to_str :: "jsval \<Rightarrow> string" where
  "to_str JUndef = ''undefined''"
| "to_str JNull = ''null''"
| "to_str (JBool b) = (if b then ''true'' else ''false'')"
| "to_str (JNum n) = show_int n"
| "to_str JNaN = ''NaN''"
| "to_str (JStr s) = s"
| "to_str (JArr xs) =
     join_comma (map (\<lambda>v. if v = JUndef \<or> v = JNull then [] else to_str v) xs)"
| "to_str (JObj ps) = ''[object Object]''"

text \<open>\<^verbatim>\<open>ToNumber\<close> of the values that are no strings, arrays or objects; \<open>None\<close> is NaN.\<close>

fun to_num :: "jsval \<Rightarrow> int option" where
  "to_num (JNum n) = Some n"
| "to_num JNull = Some 0"
| "to_num (JBool b) = Some (if b then 1 else 0)"
| "to_num v = None"

fun stringish :: "jsval \<Rightarrow> bool" where
  "stringish (JStr s) = True"
| "stringish (JArr xs) = True"
| "stringish (JObj ps) = True"
| "stringish v = False"

text \<open>
  The operator \<^verbatim>\<open>+\<close> of \<^verbatim>\<open>args[0] + args[1]\<close>: string concatenation as soon as
  one side is a string (or an array or object, which convert to strings),
  numeric addition otherwise.
\<close>

definition js_add :: "jsval \<Rightarrow> jsval \<Rightarrow> jsval" where
  "js_add a b =
     (if stringish a \<or> stringish b then JStr (to_str a @ to_str b)
      else case (to_num a, to_num b) of
             (Some x, Some y) \<Rightarrow> JNum (x + y)
           | _ \<Rightarrow> JNaN)"

text \<open>
  The operator \<^verbatim>\<open>-\<close> of \<^verbatim>\<open>endPos - startPos\<close> on the numbers the interface
  declares for positions; a string, array or object position is taken as not a number.
\<close>

definition js_sub :: "jsval \<Rightarrow> jsval \<Rightarrow> int option" where
  "js_sub a b = (case (to_num a, to_num b) of (Some x, Some y) \<Rightarrow> Some (x - y) | _ \<Rightarrow> None)"

fun starts_with :: "string \<Rightarrow> string \<Rightarrow> bool" where
  "starts_with [] s = True"
| "starts_with (p # ps) [] = False"
| "starts_with (p # ps) (c # cs) = (p = c \<and> starts_with ps cs)"

text \<open>\<^verbatim>\<open>String.prototype.indexOf\<close>; \<open>None\<close> stands for the result \<open>-1\<close>.\<close>

fun indexOf :: "string \<Rightarrow> string \<Rightarrow> nat option" where
  "indexOf pat [] = (if pat = [] then Some 0 else None)"
| "indexOf pat (c # cs) =
     (if starts_with pat (c # cs) then Some 0 else map_option Suc (indexOf pat cs))"

definition is_space :: "char \<Rightarrow> bool" where
  "is_space c = (c \<in> set [CHR '' '', CHR 0x09, CHR 0x0A, CHR 0x0B, CHR 0x0C, CHR 0x0D])"

text \<open>\<^verbatim>\<open>String.prototype.trim\<close> on the ASCII white space.\<close>

definition trim :: "string \<Rightarrow> string" where
  "trim s = rev (dropWhile is_space (rev (dropWhile is_space s)))"

definition sep :: string where
  "sep = ''/''"

text \<open>The native layer ignores trailing separators when it looks a path up.\<close>

definition norm_path :: "string \<Rightarrow> string" where
  "norm_path p = rev (dropWhile (\<lambda>c. c = CHR ''/'') (rev p))"

text \<open>\<^verbatim>\<open>path.basename\<close> (POSIX): the last component, trailing separators dropped.\<close>

definition basename :: "string \<Rightarrow> string" where
  "basename p = rev (takeWhile (\<lambda>c. c \<noteq> CHR ''/'') (rev (norm_path p)))"

text \<open>The directory part of a path, with its trailing separator; empty for a bare name.\<close>

definition parent_of :: "string \<Rightarrow> string" where
  "parent_of p = rev (dropWhile (\<lambda>c. c \<noteq> CHR ''/'') (rev (norm_path p)))"

section \<open>The native filesystem\<close>

text \<open>
  The state the operations run against: the tree as an association list from
  normalised paths to nodes, the open handles, a table of injected native
  failures (a permission denial, an I/O error: the call fails with the code
  and has no effect), and the log of what happened, in order.
\<close>

datatype node = File string | Dir

datatype syscall =
    SStat string
  | SOpen string string
  | SClose nat
  | SRead nat
  | SWrite nat
  | SUnlink string
  | SRmdir string
  | SMkdir string
  | SCopyFile string string

datatype event = Native syscall | Settled

record world =
  nodes :: "(string \<times> node) list"
  handles :: "(nat \<times> string) list"
  faults :: "syscall \<Rightarrow> string option"
  log :: "event list"

definition trace :: "syscall \<Rightarrow> world \<Rightarrow> world" where
  "trace c w = w\<lparr>log := log w @ [Native c]\<rparr>"

definition settle :: "world \<Rightarrow> world" where
  "settle w = w\<lparr>log := log w @ [Settled]\<rparr>"

definition lookup :: "world \<Rightarrow> string \<Rightarrow> string + node" where
  "lookup w p =
     (if p = [] then Inl ''ENOENT''
      else if norm_path p = [] then Inr Dir
      else case map_of (nodes w) (norm_path p) of
             None \<Rightarrow> Inl ''ENOENT''
           | Some Dir \<Rightarrow> Inr Dir
           | Some (File c) \<Rightarrow> if last p = CHR ''/'' then Inl ''ENOTDIR'' else Inr (File c))"

definition parent_ok :: "world \<Rightarrow> string \<Rightarrow> bool" where
  "parent_ok w p = (parent_of p = [] \<or> lookup w (parent_of p) = Inr Dir)"

definition has_children :: "world \<Rightarrow> string \<Rightarrow> bool" where
  "has_children w d = list_ex (\<lambda>(q, n). starts_with (norm_path d @ sep) q) (nodes w)"

definition fresh_fd :: "world \<Rightarrow> nat" where
  "fresh_fd w = Suc (fold max (map fst (handles w)) 2)"

text \<open>\<^verbatim>\<open>fs.stat\<close>: the node at the path, or the native error code.\<close>

definition fs_stat :: "string \<Rightarrow> world \<Rightarrow> (string + node) \<times> world" where
  "fs_stat p w =
     (let w1 = trace (SStat p) w in
      case faults w (SStat p) of
        Some e \<Rightarrow> (Inl e, w1)
      | None \<Rightarrow> (lookup w p, w1))"

text \<open>
  \<^verbatim>\<open>fs.open\<close> with the flags the source uses: \<^verbatim>\<open>'r'\<close> needs the path to exist,
  \<^verbatim>\<open>'w'\<close> creates or truncates, \<^verbatim>\<open>'a'\<close> creates or keeps. A file is created
  only in an existing directory and under a name without trailing separator.
\<close>

definition fs_open :: "string \<Rightarrow> string \<Rightarrow> world \<Rightarrow> (string + nat) \<times> world" where
  "fs_open p flag w =
     (let w1 = trace (SOpen p flag) w; fd = fresh_fd w in
      case faults w (SOpen p flag) of
        Some e \<Rightarrow> (Inl e, w1)
      | None \<Rightarrow>
         (case lookup w p of
            Inr Dir \<Rightarrow>
              if flag = ''r'' then (Inr fd, w1\<lparr>handles := (fd, norm_path p) # handles w1\<rparr>)
              else (Inl ''EISDIR'', w1)
          | Inr (File c) \<Rightarrow>
              (Inr fd,
               w1\<lparr>handles := (fd, norm_path p) # handles w1,
                   nodes := (if flag = ''w'' then AList.update (norm_path p) (File []) (nodes w1)
                             else nodes w1)\<rparr>)
          | Inl e \<Rightarrow>
              if e = ''ENOENT'' \<and> flag \<noteq> ''r'' \<and> p \<noteq> [] \<and> last p \<noteq> CHR ''/'' \<and> parent_ok w p
              then (Inr fd,
                    w1\<lparr>handles := (fd, norm_path p) # handles w1,
                        nodes := AList.update (norm_path p) (File []) (nodes w1)\<rparr>)
              else (Inl e, w1)))"

text \<open>\<^verbatim>\<open>fs.close\<close>.\<close>

definition fs_close :: "nat \<Rightarrow> world \<Rightarrow> (string + unit) \<times> world" where
  "fs_close fd w =
     (let w1 = trace (SClose fd) w in
      case faults w (SClose fd) of
        Some e \<Rightarrow> (Inl e, w1)
      | None \<Rightarrow>
         (case map_of (handles w) fd of
            None \<Rightarrow> (Inl ''EBADF'', w1)
          | Some p \<Rightarrow> (Inr (), w1\<lparr>handles := AList.delete fd (handles w1)\<rparr>)))"

text \<open>
  \<^verbatim>\<open>fs.read(fd, buf, 0, buf.length, position)\<close> into a zero-filled buffer of
  the given length: the bytes the file has from the position on, the rest of
  the buffer left as allocated.
\<close>

definition fs_read :: "nat \<Rightarrow> nat \<Rightarrow> nat \<Rightarrow> world \<Rightarrow> (string + string) \<times> world" where
  "fs_read fd len pos w =
     (let w1 = trace (SRead fd) w in
      case faults w (SRead fd) of
        Some e \<Rightarrow> (Inl e, w1)
      | None \<Rightarrow>
         (case map_of (handles w) fd of
            None \<Rightarrow> (Inl ''EBADF'', w1)
          | Some p \<Rightarrow>
             (case map_of (nodes w) p of
                Some (File c) \<Rightarrow>
                  (let got = take len (drop pos c)
                   in (Inr (got @ replicate (len - length got) (CHR 0x00)), w1))
              | Some Dir \<Rightarrow> (Inl ''EISDIR'', w1)
              | None \<Rightarrow> (Inr (replicate len (CHR 0x00)), w1))))"

text \<open>
  \<^verbatim>\<open>fs.write(fd, buf, 0, buf.length, position)\<close> on a handle opened with
  \<^verbatim>\<open>'a'\<close>: the bytes go to the end of the file, whatever the position (what
  Node documents for append mode on Linux). The number of bytes written is returned.
\<close>

definition fs_write :: "nat \<Rightarrow> string \<Rightarrow> jsval \<Rightarrow> world \<Rightarrow> (string + nat) \<times> world" where
  "fs_write fd buf position w =
     (let w1 = trace (SWrite fd) w in
      case faults w (SWrite fd) of
        Some e \<Rightarrow> (Inl e, w1)
      | None \<Rightarrow>
         (case map_of (handles w) fd of
            None \<Rightarrow> (Inl ''EBADF'', w1)
          | Some p \<Rightarrow>
             (case map_of (nodes w) p of
                Some (File c) \<Rightarrow>
                  (Inr (length buf), w1\<lparr>nodes := AList.update p (File (c @ buf)) (nodes w1)\<rparr>)
              | Some Dir \<Rightarrow> (Inl ''EISDIR'', w1)
              | None \<Rightarrow> (Inr (length buf), w1))))"

datatype fsarg = Callback | Options bool bool | Absent

text \<open>\<^verbatim>\<open>fs.unlink(path, callback)\<close>; a further argument is ignored.\<close>

definition fs_unlink :: "string \<Rightarrow> fsarg \<Rightarrow> fsarg \<Rightarrow> world \<Rightarrow> (string + unit) \<times> world" where
  "fs_unlink p a2 a3 w =
     (let w1 = trace (SUnlink p) w in
      case faults w (SUnlink p) of
        Some e \<Rightarrow> (Inl e, w1)
      | None \<Rightarrow>
         (case lookup w p of
            Inl e \<Rightarrow> (Inl e, w1)
          | Inr Dir \<Rightarrow> (Inl ''EISDIR'', w1)
          | Inr (File c) \<Rightarrow> (Inr (), w1\<lparr>nodes := AList.delete (norm_path p) (nodes w1)\<rparr>)))"

text \<open>
  \<^verbatim>\<open>fs.rmdir(path[, options], callback)\<close>. Node reads its second argument: when
  it is a function it is the callback and there are no options, and whatever
  comes third is dropped. Only options that arrive second can ask for a
  recursive removal.
\<close>

fun rmdir_recursive :: "fsarg \<Rightarrow> fsarg \<Rightarrow> bool" where
  "rmdir_recursive (Options recursive force) a3 = recursive"
| "rmdir_recursive a2 a3 = False"

definition remove_tree :: "string \<Rightarrow> (string \<times> node) list \<Rightarrow> (string \<times> node) list" where
  "remove_tree d ns =
     filter (\<lambda>(q, n). q \<noteq> norm_path d \<and> \<not> starts_with (norm_path d @ sep) q) ns"

definition fs_rmdir :: "string \<Rightarrow> fsarg \<Rightarrow> fsarg \<Rightarrow> world \<Rightarrow> (string + unit) \<times> world" where
  "fs_rmdir p a2 a3 w =
     (let w1 = trace (SRmdir p) w in
      case faults w (SRmdir p) of
        Some e \<Rightarrow> (Inl e, w1)
      | None \<Rightarrow>
         (case lookup w p of
            Inl e \<Rightarrow> (Inl e, w1)
          | Inr (File c) \<Rightarrow> (Inl ''ENOTDIR'', w1)
          | Inr Dir \<Rightarrow>
              if norm_path p = [] then (Inl ''EBUSY'', w1)
              else if rmdir_recursive a2 a3 then (Inr (), w1\<lparr>nodes := remove_tree p (nodes w1)\<rparr>)
              else if has_children w p then (Inl ''ENOTEMPTY'', w1)
              else (Inr (), w1\<lparr>nodes := AList.delete (norm_path p) (nodes w1)\<rparr>)))"

text \<open>\<^verbatim>\<open>fs.mkdir(path, callback)\<close>.\<close>

definition fs_mkdir :: "string \<Rightarrow> world \<Rightarrow> (string + unit) \<times> world" where
  "fs_mkdir p w =
     (let w1 = trace (SMkdir p) w in
      case faults w (SMkdir p) of
        Some e \<Rightarrow> (Inl e, w1)
      | None \<Rightarrow>
         (case lookup w p of
            Inr n \<Rightarrow> (Inl ''EEXIST'', w1)
          | Inl e \<Rightarrow>
              if e = ''ENOENT'' \<and> p \<noteq> [] \<and> parent_ok w p
              then (Inr (), w1\<lparr>nodes := AList.update (norm_path p) Dir (nodes w1)\<rparr>)
              else (Inl e, w1)))"

text \<open>
  \<^verbatim>\<open>fs.copyFile(src, dest, callback)\<close>: the destination is created or
  overwritten; copying a file onto itself succeeds and changes nothing.
\<close>

definition fs_copyFile :: "string \<Rightarrow> string \<Rightarrow> world \<Rightarrow> (string + unit) \<times> world" where
  "fs_copyFile src dst w =
     (let w1 = trace (SCopyFile src dst) w in
      case faults w (SCopyFile src dst) of
        Some e \<Rightarrow> (Inl e, w1)
      | None \<Rightarrow>
         (case lookup w src of
            Inl e \<Rightarrow> (Inl e, w1)
          | Inr Dir \<Rightarrow> (Inl ''EISDIR'', w1)
          | Inr (File c) \<Rightarrow>
             (case lookup w dst of
                Inr Dir \<Rightarrow> (Inl ''EISDIR'', w1)
              | Inr (File d) \<Rightarrow>
                  (Inr (), w1\<lparr>nodes := AList.update (norm_path dst) (File c) (nodes w1)\<rparr>)
              | Inl e \<Rightarrow>
                  if e = ''ENOENT'' \<and> dst \<noteq> [] \<and> last dst \<noteq> CHR ''/'' \<and> parent_ok w dst
                  then (Inr (), w1\<lparr>nodes := AList.update (norm_path dst) (File c) (nodes w1)\<rparr>)
                  else (Inl e, w1))))"

section \<open>Errors, entries and outcomes\<close>

text \<open>
  Modelled from the spec: the module \<^verbatim>\<open>./Types\<close> (\<^verbatim>\<open>FileError\<close>,
  \<^verbatim>\<open>FileEntry\<close>, \<^verbatim>\<open>DirectoryEntry\<close>) is not among the sources. The twelve
  error tags are those of section 6 of the specification; an entry is its
  base name and its full path, tagged file or directory (section 3).
\<close>

datatype FileError =
    NOT_FOUND_ERR
  | SECURITY_ERR
  | ABORT_ERR
  | NOT_READABLE_ERR
  | ENCODING_ERR
  | NO_MODIFICATION_ALLOWED_ERR
  | INVALID_STATE_ERR
  | SYNTAX_ERR
  | INVALID_MODIFICATION_ERR
  | QUOTA_EXCEEDED_ERR
  | TYPE_MISMATCH_ERR
  | PATH_EXISTS_ERR

datatype entry = FileEntry string string | DirectoryEntry string string

text \<open>
  What a rejected promise carries: one of the tags, or a raw value of the
  platform (the code of a native error, the name of a JavaScript exception).
\<close>

datatype rejection = Tag FileError | Raw string

text \<open>
  What a call hands to its caller: a promise that resolves, a promise that
  rejects, an exception thrown by the call itself, the value undefined in
  place of a promise, or a promise that is never settled.
\<close>

datatype 'a outcome =
    Resolved 'a
  | Rejected rejection
  | Threw string
  | Returned_undefined
  | Never_settled

definition resolve :: "'a \<Rightarrow> world \<Rightarrow> 'a outcome \<times> world" where
  "resolve v w = (Resolved v, settle w)"

definition reject :: "FileError \<Rightarrow> world \<Rightarrow> 'a outcome \<times> world" where
  "reject e w = (Rejected (Tag e), settle w)"

text \<open>
  A native call handed a path that is no string throws before it touches the
  filesystem; thrown inside a promise's executor, the exception rejects the promise.
\<close>

definition reject_raw :: "string \<Rightarrow> world \<Rightarrow> 'a outcome \<times> world" where
  "reject_raw e w = (Rejected (Raw e), settle w)"

section \<open>The operations\<close>

definition is_true :: "jsval \<Rightarrow> bool" where
  "is_true v = (v = JBool True)"

text \<open>\<^verbatim>\<open>args[2] || {}\<close>.\<close>

definition or_empty :: "jsval \<Rightarrow> jsval" where
  "or_empty v = (if falsy v then JObj [] else v)"

text \<open>\<^verbatim>\<open>createFile\<close>, the inner function of \<^verbatim>\<open>getFile\<close> (lines 102 to 116).\<close>

definition createFile :: "string \<Rightarrow> world \<Rightarrow> entry outcome \<times> world" where
  "createFile path w =
     (case fs_open path ''w'' w of
        (Inl e, w1) \<Rightarrow> reject INVALID_STATE_ERR w1
      | (Inr fd, w1) \<Rightarrow>
         (case fs_close fd w1 of
            (Inl e, w2) \<Rightarrow> reject INVALID_STATE_ERR w2
          | (Inr u, w2) \<Rightarrow> resolve (FileEntry (basename path) path) w2))"

text \<open>\<^verbatim>\<open>exports.getFile\<close> (lines 88 to 148).\<close>

definition getFile :: "jsval \<Rightarrow> world \<Rightarrow> entry outcome \<times> world" where
  "getFile args0 w =
     (let args = getArgs args0;
          options = or_empty (js_index args 2);
          create = js_get options ''create'';
          exclusive = js_get options ''exclusive''
      in case js_add (js_index args 0) (js_index args 1) of
           JStr path \<Rightarrow>
             (case fs_stat path w of
                (Inl e, w1) \<Rightarrow>
                  if e \<noteq> ''ENOENT'' then reject INVALID_STATE_ERR w1
                  else if is_true create then createFile path w1
                  else if falsy create then reject NOT_FOUND_ERR w1
                  else resolve (FileEntry (basename path) path) w1
              | (Inr stats, w1) \<Rightarrow>
                  if is_true create \<and> is_true exclusive then reject PATH_EXISTS_ERR w1
                  else if is_true create then
                    (if stats \<noteq> Dir then createFile path w1
                     else reject INVALID_MODIFICATION_ERR w1)
                  else if falsy create \<and> stats = Dir then reject TYPE_MISMATCH_ERR w1
                  else resolve (FileEntry (basename path) path) w1)
         | v \<Rightarrow> reject_raw ''TypeError'' w)"

text \<open>
  \<^verbatim>\<open>exports.getMetadata\<close> (lines 166 to 179). The size is the length of a
  file's content; the size of a directory and the modification time are
  platform data outside the model, here \<open>0\<close>.
\<close>

fun stat_size :: "node \<Rightarrow> nat" where
  "stat_size (File c) = length c"
| "stat_size Dir = 0"

definition getMetadata :: "jsval \<Rightarrow> world \<Rightarrow> nat outcome \<times> world" where
  "getMetadata args w =
     (case js_index args 0 of
        JStr path \<Rightarrow>
          (case fs_stat path w of
             (Inl e, w1) \<Rightarrow> reject NOT_FOUND_ERR w1
           | (Inr stats, w1) \<Rightarrow> resolve (stat_size stats) w1)
      | v \<Rightarrow> reject_raw ''TypeError'' w)"

text \<open>
  \<^verbatim>\<open>Buffer.from\<close>: the bytes of a string, or of an array of numbers (each taken
  modulo 256, an element that is no number as 0 or 1 by its truth value); a
  number, a boolean or a plain object makes it throw.
\<close>

fun byte_of :: "jsval \<Rightarrow> char" where
  "byte_of (JNum n) = char_of n"
| "byte_of (JBool b) = (if b then CHR 0x01 else CHR 0x00)"
| "byte_of v = CHR 0x00"

fun buffer_from :: "jsval \<Rightarrow> string option" where
  "buffer_from (JStr s) = Some s"
| "buffer_from (JArr xs) = Some (map byte_of xs)"
| "buffer_from v = None"

text \<open>
  \<^verbatim>\<open>exports.write\<close> (lines 196 to 215), named \<open>write_file\<close> here. The rejections of the promisified
  \<^verbatim>\<open>fs.open\<close>, \<^verbatim>\<open>fs.write\<close> and \<^verbatim>\<open>fs.close\<close> have no handler in the chain: they
  reach the caller as they are. The handler of \<^verbatim>\<open>finally\<close> closes the handle
  before the chain goes on, and its own rejection replaces the result.
\<close>

definition write_file :: "jsval \<Rightarrow> world \<Rightarrow> nat outcome \<times> world" where
  "write_file args0 w =
     (let args = getArgs args0;
          fileName = js_index args 0;
          data = js_index args 1;
          position = js_index args 2
      in if falsy data then reject INVALID_MODIFICATION_ERR w
         else case buffer_from data of
                None \<Rightarrow> (Threw ''TypeError'', w)
              | Some buf \<Rightarrow>
                 (case fileName of
                    JStr path \<Rightarrow>
                      (case fs_open path ''a'' w of
                         (Inl e, w1) \<Rightarrow> reject_raw e w1
                       | (Inr fd, w1) \<Rightarrow>
                          (case fs_write fd buf position w1 of
                             (written, w2) \<Rightarrow>
                              (case fs_close fd w2 of
                                 (Inl e, w3) \<Rightarrow> reject_raw e w3
                               | (Inr u, w3) \<Rightarrow>
                                  (case written of
                                     Inl e \<Rightarrow> reject_raw e w3
                                   | Inr bw \<Rightarrow> resolve bw w3))))
                  | v \<Rightarrow> reject_raw ''TypeError'' w))"

text \<open>
  \<^verbatim>\<open>Buffer.alloc(endPos - startPos)\<close>: a zero-filled buffer of that many bytes; a
  negative size, or one that is not a number, makes it throw.
\<close>

definition buffer_alloc :: "int option \<Rightarrow> nat option" where
  "buffer_alloc len = (case len of None \<Rightarrow> None | Some n \<Rightarrow> if n < 0 then None else Some (nat n))"

definition lower :: "char \<Rightarrow> char" where
  "lower c =
     (if (65::nat) \<le> of_char c \<and> of_char c \<le> (90::nat) then char_of (of_char c + (32::nat)) else c)"

text \<open>
  The encoding of \<^verbatim>\<open>buf.toString(encoding)\<close>: a falsy one is UTF-8, any other is
  converted to a string and must be a name Node knows, or the call throws.
\<close>

definition encoding_of :: "jsval \<Rightarrow> string option" where
  "encoding_of enc =
     (if falsy enc then Some ''utf8''
      else let e = map lower (to_str enc)
           in if e \<in> set [''utf8'', ''utf-8'', ''ucs2'', ''ucs-2'', ''utf16le'', ''utf-16le'',
                           ''latin1'', ''binary'', ''base64'', ''base64url'', ''ascii'', ''hex'']
              then Some e else None)"

text \<open>The first argument of \<^verbatim>\<open>readAs\<close>: \<^verbatim>\<open>'text'\<close>, \<^verbatim>\<open>'dataURL'\<close>, \<^verbatim>\<open>'arrayBuffer'\<close> or \<^verbatim>\<open>'binaryString'\<close>.\<close>

datatype read_kind = AsText | AsDataURL | AsArrayBuffer | AsBinaryString

text \<open>
  What a read resolves with. The codecs (text decoding, base64) are outside
  the model: a representation names the codec and keeps the bytes it is applied to.
\<close>

datatype representation =
    Text string string
  | DataURL string
  | ArrayBuffer string
  | BinaryString string

definition represent :: "read_kind \<Rightarrow> string \<Rightarrow> jsval \<Rightarrow> representation option" where
  "represent what buf encoding =
     (case what of
        AsText \<Rightarrow> map_option (\<lambda>e. Text e buf) (encoding_of encoding)
      | AsDataURL \<Rightarrow> Some (DataURL buf)
      | AsArrayBuffer \<Rightarrow> Some (ArrayBuffer buf)
      | AsBinaryString \<Rightarrow> Some (BinaryString buf))"

text \<open>
  \<^verbatim>\<open>readAs\<close> (lines 457 to 488). An exception of \<^verbatim>\<open>Buffer.alloc\<close> is thrown inside
  the callback of \<^verbatim>\<open>fs.open\<close>, where nothing catches it: the promise is never
  settled and the chain that closes the handle is never built. Otherwise
  \<^verbatim>\<open>resolve\<close> and \<^verbatim>\<open>reject\<close> are called in the handlers of the read, and the
  handler that closes the handle runs after them; its result goes nowhere.
  \<open>position_of\<close> is the offset of the read: the handle is fresh, so a position
  below zero, which reads from the handle's own position, reads from the start.
\<close>

definition position_of :: "jsval \<Rightarrow> nat" where
  "position_of v = (case to_num v of Some n \<Rightarrow> nat n | None \<Rightarrow> 0)"

definition readAs ::
  "read_kind \<Rightarrow> jsval \<Rightarrow> jsval \<Rightarrow> jsval \<Rightarrow> jsval \<Rightarrow> world \<Rightarrow> representation outcome \<times> world"
where
  "readAs what fullPath encoding startPos endPos w =
     (case fullPath of
        JStr path \<Rightarrow>
          (case fs_open path ''r'' w of
             (Inl e, w1) \<Rightarrow> reject NOT_FOUND_ERR w1
           | (Inr fd, w1) \<Rightarrow>
              (case buffer_alloc (js_sub endPos startPos) of
                 None \<Rightarrow> (Never_settled, w1)
               | Some len \<Rightarrow>
                  (case fs_read fd len (position_of startPos) w1 of
                     (Inl e, w2) \<Rightarrow>
                       (case reject NOT_READABLE_ERR w2 of
                          (r, w3) \<Rightarrow> (r, snd (fs_close fd w3)))
                   | (Inr buf, w2) \<Rightarrow>
                       (case represent what buf encoding of
                          None \<Rightarrow>
                            (case reject NOT_READABLE_ERR w2 of
                               (r, w3) \<Rightarrow> (r, snd (fs_close fd w3)))
                        | Some v \<Rightarrow>
                            (case resolve v w2 of
                               (r, w3) \<Rightarrow> (r, snd (fs_close fd w3)))))))
      | v \<Rightarrow> reject_raw ''TypeError'' w)"

definition readAsText :: "jsval \<Rightarrow> world \<Rightarrow> representation outcome \<times> world" where
  "readAsText args0 w =
     (let args = getArgs args0
      in readAs AsText (js_index args 0) (js_index args 1) (js_index args 2) (js_index args 3) w)"

definition readAsDataURL :: "jsval \<Rightarrow> world \<Rightarrow> representation outcome \<times> world" where
  "readAsDataURL args0 w =
     (let args = getArgs args0
      in readAs AsDataURL (js_index args 0) JNull (js_index args 1) (js_index args 2) w)"

definition readAsBinaryString :: "jsval \<Rightarrow> world \<Rightarrow> representation outcome \<times> world" where
  "readAsBinaryString args0 w =
     (let args = getArgs args0
      in readAs AsBinaryString (js_index args 0) JNull (js_index args 1) (js_index args 2) w)"

definition readAsArrayBuffer :: "jsval \<Rightarrow> world \<Rightarrow> representation outcome \<times> world" where
  "readAsArrayBuffer args0 w =
     (let args = getArgs args0
      in readAs AsArrayBuffer (js_index args 0) JNull (js_index args 1) (js_index args 2) w)"

text \<open>
  The choice \<^verbatim>\<open>stats.isDirectory() ? fs.rmdir : fs.unlink\<close> and the call
  \<^verbatim>\<open>rm(fullPath, callback, extra)\<close> of \<^verbatim>\<open>remove\<close> and \<^verbatim>\<open>removeRecursively\<close>: the
  callback is the second argument in both, and \<^verbatim>\<open>removeRecursively\<close> passes
  its options third.
\<close>

definition rm :: "node \<Rightarrow> string \<Rightarrow> fsarg \<Rightarrow> fsarg \<Rightarrow> world \<Rightarrow> (string + unit) \<times> world" where
  "rm stats = (if stats = Dir then fs_rmdir else fs_unlink)"

text \<open>\<^verbatim>\<open>exports.remove\<close> (lines 254 to 274).\<close>

definition remove :: "jsval \<Rightarrow> world \<Rightarrow> unit outcome \<times> world" where
  "remove args0 w =
     (let args = getArgs args0
      in case js_index args 0 of
           JStr fullPath \<Rightarrow>
             (case fs_stat fullPath w of
                (Inl e, w1) \<Rightarrow> reject NOT_FOUND_ERR w1
              | (Inr stats, w1) \<Rightarrow>
                 (case rm stats fullPath Callback Absent w1 of
                    (Inl e, w2) \<Rightarrow> reject NO_MODIFICATION_ALLOWED_ERR w2
                  | (Inr u, w2) \<Rightarrow> resolve () w2))
         | v \<Rightarrow> reject_raw ''TypeError'' w)"

text \<open>\<^verbatim>\<open>exports.removeRecursively\<close> (lines 292 to 312).\<close>

definition removeRecursively :: "jsval \<Rightarrow> world \<Rightarrow> unit outcome \<times> world" where
  "removeRecursively args0 w =
     (let args = getArgs args0
      in case js_index args 0 of
           JStr fullPath \<Rightarrow>
             (case fs_stat fullPath w of
                (Inl e, w1) \<Rightarrow> reject NOT_FOUND_ERR w1
              | (Inr stats, w1) \<Rightarrow>
                 (case rm stats fullPath Callback (Options True True) w1 of
                    (Inl e, w2) \<Rightarrow> reject NO_MODIFICATION_ALLOWED_ERR w2
                  | (Inr u, w2) \<Rightarrow> resolve () w2))
         | v \<Rightarrow> reject_raw ''TypeError'' w)"

text \<open>\<^verbatim>\<open>exports.getDirectory\<close> (lines 314 to 364).\<close>

definition getDirectory :: "jsval \<Rightarrow> world \<Rightarrow> entry outcome \<times> world" where
  "getDirectory args0 w =
     (let args = getArgs args0;
          options = or_empty (js_index args 2);
          create = js_get options ''create'';
          exclusive = js_get options ''exclusive''
      in case js_add (js_index args 0) (js_index args 1) of
           JStr path \<Rightarrow>
             (case fs_stat path w of
                (Inl e, w1) \<Rightarrow>
                  if e \<noteq> ''ENOENT'' then reject INVALID_STATE_ERR w1
                  else if is_true create then
                    (case fs_mkdir path w1 of
                       (Inl e', w2) \<Rightarrow> reject PATH_EXISTS_ERR w2
                     | (Inr u, w2) \<Rightarrow> resolve (DirectoryEntry (basename path) path) w2)
                  else if falsy create then reject NOT_FOUND_ERR w1
                  else resolve (DirectoryEntry (basename path) path) w1
              | (Inr stats, w1) \<Rightarrow>
                  if is_true create \<and> is_true exclusive then reject PATH_EXISTS_ERR w1
                  else if is_true create then
                    (if stats = Dir then resolve (DirectoryEntry (basename path) path) w1
                     else reject INVALID_MODIFICATION_ERR w1)
                  else if falsy create \<and> stats \<noteq> Dir then reject TYPE_MISMATCH_ERR w1
                  else resolve (DirectoryEntry (basename path) path) w1)
         | v \<Rightarrow> reject_raw ''TypeError'' w)"

text \<open>
  \<^verbatim>\<open>exports.copyTo\<close> (lines 375 to 390): the promise is settled with whatever
  the promise of \<^verbatim>\<open>getFile\<close> is settled with.
\<close>

definition copyTo :: "jsval \<Rightarrow> world \<Rightarrow> entry outcome \<times> world" where
  "copyTo args0 w =
     (let args = getArgs args0;
          srcPath = js_index args 0;
          dstDir = js_index args 1;
          dstName = js_index args 2
      in case (srcPath, js_add dstDir dstName) of
           (JStr src, JStr dst) \<Rightarrow>
             (case fs_copyFile src dst w of
                (Inl e, w1) \<Rightarrow> reject INVALID_MODIFICATION_ERR w1
              | (Inr u, w1) \<Rightarrow>
                 (case getFile (JArr [dstDir, dstName]) w1 of
                    (r, w2) \<Rightarrow> (r, settle w2)))
         | v \<Rightarrow> reject_raw ''TypeError'' w)"

text \<open>
  \<^verbatim>\<open>exports.moveTo\<close> (lines 392 to 401): \<^verbatim>\<open>remove\<close> runs when the promise of
  \<^verbatim>\<open>copyTo\<close> has resolved, and its rejection is the rejection of the whole.
\<close>

definition moveTo :: "jsval \<Rightarrow> world \<Rightarrow> entry outcome \<times> world" where
  "moveTo args0 w =
     (let args = getArgs args0;
          srcPath = js_index args 0
      in case copyTo args w of
           (Resolved fileEntry, w1) \<Rightarrow>
             (case remove (JArr [srcPath]) w1 of
                (Resolved u, w2) \<Rightarrow> resolve fileEntry w2
              | (Rejected r, w2) \<Rightarrow> (Rejected r, settle w2)
              | (Threw x, w2) \<Rightarrow> reject_raw x w2
              | (Returned_undefined, w2) \<Rightarrow> reject_raw ''TypeError'' w2
              | (Never_settled, w2) \<Rightarrow> (Never_settled, w2))
         | (Rejected r, w1) \<Rightarrow> (Rejected r, settle w1)
         | (Threw x, w1) \<Rightarrow> (Threw x, w1)
         | (Returned_undefined, w1) \<Rightarrow> (Threw ''TypeError'', w1)
         | (Never_settled, w1) \<Rightarrow> (Never_settled, w1))"

text \<open>
  The table \<^verbatim>\<open>pathsPrefix\<close> (lines 34 to 41) comes from Electron's \<^verbatim>\<open>app\<close>, and
  \<^verbatim>\<open>decodeURI\<close> is a builtin of the language: both are parameters of the
  model. \<open>decodeURI\<close> gives \<open>None\<close> where the builtin throws a \<^verbatim>\<open>URIError\<close>.
\<close>

record platform =
  applicationDirectory :: string
  dataDirectory :: string
  externalDataDirectory :: string
  cacheDirectory :: string
  tempDirectory :: string
  documentsDirectory :: string
  decodeURI :: "string \<Rightarrow> string option"

definition contains :: "string \<Rightarrow> string \<Rightarrow> bool" where
  "contains pat s = (case indexOf pat s of None \<Rightarrow> False | Some i \<Rightarrow> True)"

text \<open>The probe at the end of \<^verbatim>\<open>resolveLocalFileSystemURI\<close> (lines 434 to 448).\<close>

definition probe :: "string \<Rightarrow> world \<Rightarrow> entry outcome \<times> world" where
  "probe path w =
     (case fs_stat path w of
        (Inl e, w1) \<Rightarrow> reject NOT_FOUND_ERR w1
      | (Inr stats, w1) \<Rightarrow>
          if stats = Dir then resolve (DirectoryEntry (basename path) path) w1
          else resolve (FileEntry (basename path) path) w1)"

text \<open>
  The block \<^verbatim>\<open>support for cdvfile\<close> (lines 412 to 432) on the decoded path. At
  line 415 the rejected promise is created and dropped, and the function
  returns undefined.
\<close>

definition cdvfile :: "platform \<Rightarrow> string \<Rightarrow> world \<Rightarrow> entry outcome \<times> world" where
  "cdvfile pf path w =
     (if take 7 (trim path) = ''cdvfile'' then
        (if indexOf ''cdvfile://localhost'' path = None then (Returned_undefined, w)
         else case indexOf ''application'' path of
                Some i \<Rightarrow> probe (applicationDirectory pf @ drop (i + 12) path) w
              | None \<Rightarrow>
                 (case indexOf ''persistent'' path of
                    Some i \<Rightarrow> probe (dataDirectory pf @ drop (i + 11) path) w
                  | None \<Rightarrow>
                     (case indexOf ''temporary'' path of
                        Some i \<Rightarrow> probe (tempDirectory pf @ drop (i + 10) path) w
                      | None \<Rightarrow> reject ENCODING_ERR w)))
      else probe path w)"

text \<open>
  \<^verbatim>\<open>exports.resolveLocalFileSystemURI\<close> (lines 403 to 450). The two regular
  expressions convert a value that is no string before they test it, and
  \<^verbatim>\<open>decodeURI\<close> gives a string; without the decoding, \<^verbatim>\<open>path.trim\<close> throws on
  a value that is no string.
\<close>

definition resolveLocalFileSystemURI ::
  "platform \<Rightarrow> jsval \<Rightarrow> world \<Rightarrow> entry outcome \<times> world"
where
  "resolveLocalFileSystemURI pf args0 w =
     (let args = getArgs args0;
          path = js_index args 0
      in if contains ''%5'' (to_str path) \<or> contains ''%20'' (to_str path) then
           (case decodeURI pf (to_str path) of
              None \<Rightarrow> (Threw ''URIError'', w)
            | Some decoded \<Rightarrow> cdvfile pf decoded w)
         else case path of
                JStr s \<Rightarrow> cdvfile pf s w
              | v \<Rightarrow> (Threw ''TypeError'', w))"

section \<open>A small filesystem for the examples\<close>

definition example_world :: world where
  "example_world =
     \<lparr>nodes = [(''/d'', Dir), (''/d/a.txt'', File ''abc''), (''/d/sub'', Dir),
               (''/d/sub/x'', File ''x'')],
      handles = [],
      faults = (\<lambda>c. None),
      log = []\<rparr>"

definition example_platform :: platform where
  "example_platform =
     \<lparr>applicationDirectory = ''/app/'', dataDirectory = ''/data/'',
      externalDataDirectory = ''/data/'', cacheDirectory = ''/cache/'',
      tempDirectory = ''/tmp/'', documentsDirectory = ''/docs/'',
      decodeURI = Some\<rparr>"

definition create_exclusive :: jsval where
  "create_exclusive = JObj [(''create'', JBool True), (''exclusive'', JBool True)]"

definition create_only :: jsval where
  "create_only = JObj [(''create'', JBool True), (''exclusive'', JBool False)]"

definition move_args :: jsval where
  "move_args = JArr [JStr ''/d/a.txt'', JStr ''/d/sub/'', JStr ''b.txt'']"

text \<open>The same filesystem with one native failure injected: removing the file is denied.\<close>

definition example_denied :: world where
  "example_denied =
     example_world\<lparr>faults := (\<lambda>c. if c = SUnlink ''/d/a.txt'' then Some ''EACCES'' else None)\<rparr>"

text \<open>Opening the file for appending is denied.\<close>

definition example_unwritable :: world where
  "example_unwritable =
     example_world\<lparr>faults := (\<lambda>c. if c = SOpen ''/d/a.txt'' ''a'' then Some ''EACCES'' else None)\<rparr>"

text \<open>The write on the first handle fails.\<close>

definition example_disk_error :: world where
  "example_disk_error =
     example_world\<lparr>faults := (\<lambda>c. if c = SWrite 3 then Some ''EIO'' else None)\<rparr>"

text \<open>
  The class token in the words of the specification (section 4.1): in a
  symbolic URI \<^verbatim>\<open>scheme://host/<class>/<rest>\<close> with the expected scheme and
  host, the segment between the host and the next separator. The source has
  no such notion; this definition only states what the specification means.
\<close>

definition spec_class_token :: "string \<Rightarrow> string option" where
  "spec_class_token uri =
     (if starts_with ''cdvfile://localhost/'' uri
      then Some (takeWhile (\<lambda>c. c \<noteq> CHR ''/'') (drop 20 uri))
      else None)"

section \<open>Facts about the native layer\<close>

lemma trace_fields [simp]:
  "nodes (trace c w) = nodes w" "handles (trace c w) = handles w"
  "faults (trace c w) = faults w" "log (trace c w) = log w @ [Native c]"
  by (simp_all add: trace_def)

lemma settle_fields [simp]:
  "nodes (settle w) = nodes w" "handles (settle w) = handles w"
  "faults (settle w) = faults w" "log (settle w) = log w @ [Settled]"
  by (simp_all add: settle_def)

lemma lookup_cong_nodes: "nodes w' = nodes w \<Longrightarrow> lookup w' p = lookup w p"
  by (simp add: lookup_def)

lemma lookup_trace [simp]: "lookup (trace c w) p = lookup w p"
  by (rule lookup_cong_nodes) simp

lemma lookup_settle [simp]: "lookup (settle w) p = lookup w p"
  by (rule lookup_cong_nodes) simp

lemma or_empty_create: "js_get options ''create'' = JBool True \<Longrightarrow> or_empty options = options"
  by (cases options) (simp_all add: or_empty_def)

lemma getArgs_flat3 [simp]: "getArgs (JArr [a, b, c]) = JArr [a, b, c]"
  by (simp add: getArgs_def)

lemma getArgs_wrapped [simp]: "getArgs (JArr [JArr xs]) = JArr xs"
  by (simp add: getArgs_def)

lemma js_add_str [simp]: "js_add (JStr a) (JStr b) = JStr (a @ b)"
  by (simp add: js_add_def)

lemma fs_stat_ok:
  "faults w (SStat p) = None \<Longrightarrow> fs_stat p w = (lookup w p, trace (SStat p) w)"
  by (simp add: fs_stat_def Let_def)

lemma nodes_fs_close [simp]: "nodes (snd (fs_close fd w)) = nodes w"
  by (simp add: fs_close_def Let_def split: option.splits)

lemma fs_open_truncates:
  assumes "faults w (SOpen q ''w'') = None" and "lookup w q = Inr (File c)"
  shows "\<exists>fd w1. fs_open q ''w'' w = (Inr fd, w1)
           \<and> map_of (nodes w1) (norm_path q) = Some (File [])"
  using assms by (simp add: fs_open_def Let_def update_conv')

lemma nodes_createFile:
  "nodes (snd (createFile q w)) = nodes (snd (fs_open q ''w'' w))"
proof (cases "fs_open q ''w'' w")
  case (Pair r w1)
  show ?thesis
  proof (cases r)
    case (Inl e)
    with Pair show ?thesis by (simp add: createFile_def reject_def)
  next
    case (Inr fd)
    have "nodes (snd (fs_close fd w1)) = nodes w1" by simp
    with Pair Inr show ?thesis
      by (cases "fs_close fd w1") (auto simp: createFile_def reject_def resolve_def split: sum.splits)
  qed
qed

lemma norm_path_id: "p \<noteq> [] \<Longrightarrow> last p \<noteq> CHR ''/'' \<Longrightarrow> norm_path p = p"
proof -
  assume a: "p \<noteq> []" "last p \<noteq> CHR ''/''"
  from a(1) have r: "rev p = last p # rev (butlast p)"
    by (induction p rule: rev_induct) simp_all
  show ?thesis
    unfolding norm_path_def by (subst r) (simp add: a)
qed

lemma lookup_File_D:
  "lookup w p = Inr (File c) \<Longrightarrow>
     p \<noteq> [] \<and> norm_path p \<noteq> [] \<and> last p \<noteq> CHR ''/'' \<and> map_of (nodes w) (norm_path p) = Some (File c)"
  by (auto simp: lookup_def split: if_splits option.splits node.splits)

lemma lookup_File_I:
  "p \<noteq> [] \<Longrightarrow> norm_path p \<noteq> [] \<Longrightarrow> last p \<noteq> CHR ''/'' \<Longrightarrow>
     map_of (nodes w) (norm_path p) = Some (File c) \<Longrightarrow> lookup w p = Inr (File c)"
  by (simp add: lookup_def)

lemma fs_unlink_fail:
  "fs_unlink p a2 a3 w = (Inl e, w') \<Longrightarrow> w' = trace (SUnlink p) w"
  by (auto simp: fs_unlink_def Let_def split: option.splits sum.splits node.splits)

lemma fs_rmdir_fail:
  "fs_rmdir p a2 a3 w = (Inl e, w') \<Longrightarrow> w' = trace (SRmdir p) w"
  by (auto simp: fs_rmdir_def Let_def split: option.splits sum.splits node.splits if_splits)

lemma rm_fail: "rm stats p a2 a3 w = (Inl e, w') \<Longrightarrow> nodes w' = nodes w \<and> handles w' = handles w"
  by (auto simp: rm_def dest: fs_unlink_fail fs_rmdir_fail split: if_splits)

lemma fs_stat_frame: "fs_stat p w = (r, w') \<Longrightarrow> w' = trace (SStat p) w"
  by (auto simp: fs_stat_def Let_def split: option.splits)

lemma getArgs_single_str [simp]: "getArgs (JArr [JStr s]) = JArr [JStr s]"
  by (simp add: getArgs_def)

lemma getArgs_pair [simp]: "getArgs (JArr [a, b]) = JArr [a, b]"
  by (simp add: getArgs_def)

lemma remove_rejected:
  assumes "remove (JArr [JStr src]) w = (Rejected r, w')"
  shows "nodes w' = nodes w \<and> handles w' = handles w
         \<and> (r = Tag NOT_FOUND_ERR \<or> r = Tag NO_MODIFICATION_ALLOWED_ERR)"
proof (cases "fs_stat src w")
  case (Pair s w1)
  then have w1: "w1 = trace (SStat src) w" by (rule fs_stat_frame)
  show ?thesis
  proof (cases s)
    case (Inl e)
    with Pair assms w1 show ?thesis by (auto simp: remove_def reject_def)
  next
    case (Inr stats)
    show ?thesis
    proof (cases "rm stats src Callback Absent w1")
      case (Pair q w2)
      show ?thesis
      proof (cases q)
        case (Inl e)
        with Pair have "nodes w2 = nodes w1 \<and> handles w2 = handles w1" by (auto dest: rm_fail)
        with Inl Pair Inr \<open>fs_stat src w = (s, w1)\<close> assms w1 show ?thesis
          by (auto simp: remove_def reject_def)
      next
        case (Inr u)
        with Pair \<open>s = Inr stats\<close> \<open>fs_stat src w = (s, w1)\<close> assms show ?thesis
          by (auto simp: remove_def resolve_def)
      qed
    qed
  qed
qed


lemma fs_copyFile_ok:
  assumes "fs_copyFile src dst w = (Inr u, w1)"
  shows "\<exists>c. lookup w src = Inr (File c) \<and> lookup w1 dst = Inr (File c)
             \<and> lookup w1 src = Inr (File c) \<and> handles w1 = handles w"
proof -
  from assms obtain c where src: "lookup w src = Inr (File c)"
    by (auto simp: fs_copyFile_def Let_def split: option.splits sum.splits node.splits if_splits)
  from assms src have dst: "dst \<noteq> [] \<and> last dst \<noteq> CHR ''/'' \<and> norm_path dst \<noteq> []"
    by (auto simp: fs_copyFile_def Let_def norm_path_id dest: lookup_File_D
        split: option.splits sum.splits node.splits if_splits)
  from assms src have w1: "nodes w1 = AList.update (norm_path dst) (File c) (nodes w)"
      and h: "handles w1 = handles w"
    by (auto simp: fs_copyFile_def Let_def split: option.splits sum.splits node.splits if_splits)
  from dst w1 have d: "lookup w1 dst = Inr (File c)"
    by (intro lookup_File_I) (simp_all add: update_conv')
  from lookup_File_D [OF src] w1 have "lookup w1 src = Inr (File c)"
    by (intro lookup_File_I) (simp_all add: update_conv')
  with src d h show ?thesis by blast
qed

lemma getFile_plain_resolved:
  assumes "getFile (JArr [JStr d, JStr n]) w = (Resolved e, w')"
  shows "e = FileEntry (basename (d @ n)) (d @ n) \<and> w' = settle (trace (SStat (d @ n)) w)"
proof (cases "fs_stat (d @ n) w")
  case (Pair s w1)
  then have "w1 = trace (SStat (d @ n)) w" by (rule fs_stat_frame)
  with Pair assms show ?thesis
    by (cases s)
       (auto simp: getFile_def js_add_def or_empty_def is_true_def reject_def resolve_def Let_def
             split: if_splits)
qed

lemma copyTo_resolved:
  assumes "copyTo (JArr [JStr src, JStr d, JStr n]) w = (Resolved e, w1)"
  shows "e = FileEntry (basename (d @ n)) (d @ n)
         \<and> (\<exists>c. lookup w src = Inr (File c) \<and> lookup w1 (d @ n) = Inr (File c)
                \<and> lookup w1 src = Inr (File c))"
proof (cases "fs_copyFile src (d @ n) w")
  case (Pair r wc)
  show ?thesis
  proof (cases r)
    case (Inl err)
    with Pair assms show ?thesis
      by (simp add: copyTo_def getArgs_def js_add_def reject_def Let_def)
  next
    case (Inr u)
    with Pair have ok: "fs_copyFile src (d @ n) w = (Inr u, wc)" by simp
    obtain g wg where g: "getFile (JArr [JStr d, JStr n]) wc = (g, wg)" by (cases "getFile (JArr [JStr d, JStr n]) wc")
    with ok assms have eq: "g = Resolved e" "w1 = settle wg"
      by (simp_all add: copyTo_def getArgs_def js_add_def Let_def)
    from getFile_plain_resolved [OF g [unfolded eq(1)]]
    have e: "e = FileEntry (basename (d @ n)) (d @ n)" and wg: "wg = settle (trace (SStat (d @ n)) wc)"
      by simp_all
    from fs_copyFile_ok [OF ok] obtain c where
      "lookup w src = Inr (File c)" "lookup wc (d @ n) = Inr (File c)" "lookup wc src = Inr (File c)"
      by blast
    with e wg eq(2) show ?thesis by simp
  qed
qed


lemma fs_unlink_ok:
  assumes "fs_unlink p a2 a3 w = (Inr u, w')" and "lookup w p = Inr (File c)"
  shows "lookup w' p = Inl ''ENOENT''"
proof -
  from assms have "nodes w' = AList.delete (norm_path p) (nodes w)"
    by (auto simp: fs_unlink_def Let_def split: option.splits)
  with lookup_File_D [OF assms(2)] show ?thesis
    by (simp add: lookup_def delete_conv')
qed

lemma remove_resolved:
  assumes "remove (JArr [JStr src]) w = (Resolved u, w')" and "lookup w src = Inr (File c)"
  shows "lookup w' src = Inl ''ENOENT''"
proof (cases "faults w (SStat src)")
  case (Some e)
  with assms show ?thesis by (simp add: remove_def fs_stat_def reject_def Let_def)
next
  case None
  let ?w1 = "trace (SStat src) w"
  obtain q w2 where q: "fs_unlink src Callback Absent ?w1 = (q, w2)"
    by (cases "fs_unlink src Callback Absent ?w1")
  with assms None have r: "(case q of Inl e \<Rightarrow> reject NO_MODIFICATION_ALLOWED_ERR w2
                           | Inr u \<Rightarrow> resolve () w2) = (Resolved u, w')"
    by (simp add: remove_def fs_stat_ok rm_def)
  then obtain v where v: "q = Inr v" and w': "w' = settle w2"
    by (cases q) (auto simp: reject_def resolve_def)
  from assms(2) have "lookup ?w1 src = Inr (File c)" by simp
  from fs_unlink_ok [OF q [unfolded v] this] w' show ?thesis by simp
qed

lemma lookup_example [simp]:
  "lookup example_world ''/d/a.txt'' = Inr (File ''abc'')"
  "lookup example_world ''/d/sub'' = Inr Dir"
  "lookup example_world ''/d/sub/'' = Inr Dir"
  by (simp_all add: lookup_def example_world_def norm_path_def)

lemma faults_example [simp]: "faults example_world c = None"
  by (simp add: example_world_def)

section \<open>The claims\<close>

text \<open>
  C1. When the path \<open>p + n\<close> exists, as a file or as a directory (the probe
  finds a node there), \<^verbatim>\<open>getFile(p, n, {create: true, exclusive: true})\<close>
  rejects with \<open>PATH_EXISTS_ERR\<close>, whether the arguments come flat or wrapped
  in one more array; the probe is the only native call.
\<close>

theorem getFile_create_exclusive_existing:
  assumes "faults w (SStat (p @ n)) = None"
      and "lookup w (p @ n) = Inr stats"
      and "js_get options ''create'' = JBool True"
      and "js_get options ''exclusive'' = JBool True"
  shows "getFile (JArr [JStr p, JStr n, options]) w
           = (Rejected (Tag PATH_EXISTS_ERR), settle (trace (SStat (p @ n)) w))
       \<and> getFile (JArr [JArr [JStr p, JStr n, options]]) w
           = (Rejected (Tag PATH_EXISTS_ERR), settle (trace (SStat (p @ n)) w))"
  using assms or_empty_create [OF assms(3)]
  by (simp add: getFile_def fs_stat_ok Let_def is_true_def reject_def)

theorem getFile_create_exclusive_existing_witness:
  "faults example_world (SStat (''/d/'' @ ''a.txt'')) = None
   \<and> lookup example_world (''/d/'' @ ''a.txt'') = Inr (File ''abc'')
   \<and> lookup example_world (''/d/'' @ ''sub'') = Inr Dir
   \<and> js_get create_exclusive ''create'' = JBool True
   \<and> js_get create_exclusive ''exclusive'' = JBool True
   \<and> fst (getFile (JArr [JStr ''/d/'', JStr ''a.txt'', create_exclusive]) example_world)
         = Rejected (Tag PATH_EXISTS_ERR)
   \<and> fst (getFile (JArr [JArr [JStr ''/d/'', JStr ''sub'', create_exclusive]]) example_world)
         = Rejected (Tag PATH_EXISTS_ERR)"
proof -
  have h1: "faults example_world (SStat (''/d/'' @ ''a.txt'')) = None" by simp
  have h2: "lookup example_world (''/d/'' @ ''a.txt'') = Inr (File ''abc'')" by simp
  have d1: "faults example_world (SStat (''/d/'' @ ''sub'')) = None" by simp
  have d2: "lookup example_world (''/d/'' @ ''sub'') = Inr Dir" by simp
  have h3: "js_get create_exclusive ''create'' = JBool True" by (simp add: create_exclusive_def)
  have h4: "js_get create_exclusive ''exclusive'' = JBool True" by (simp add: create_exclusive_def)
  show ?thesis
    using getFile_create_exclusive_existing [OF h1 h2 h3 h4]
      getFile_create_exclusive_existing [OF d1 d2 h3 h4] h1 h2 d2 h3 h4
    by simp
qed

text \<open>
  C2, at a directory that is not empty. \<^verbatim>\<open>removeRecursively\<close> hands its options
  to \<^verbatim>\<open>fs.rmdir\<close> as the third argument, after the callback, where Node drops
  them: the removal is the plain one, it fails on the directory \<^verbatim>\<open>/d/sub/\<close>
  with its one file, the promise rejects with \<open>NO_MODIFICATION_ALLOWED_ERR\<close>
  and nothing is removed. With the options second, the same native call
  removes the directory and its content.
\<close>

theorem removeRecursively_nonempty_directory_rejected:
  "lookup example_world ''/d/sub/'' = Inr Dir
   \<and> has_children example_world ''/d/sub/''
   \<and> fst (removeRecursively (JArr [JStr ''/d/sub/'']) example_world)
        = Rejected (Tag NO_MODIFICATION_ALLOWED_ERR)
   \<and> nodes (snd (removeRecursively (JArr [JStr ''/d/sub/'']) example_world)) = nodes example_world
   \<and> nodes (snd (fs_rmdir ''/d/sub/'' (Options True True) Callback example_world))
        = [(''/d'', Dir), (''/d/a.txt'', File ''abc'')]"
  by code_simp

text \<open>
  C3, at \<^verbatim>\<open>write\<close>. When the native open is denied, or when the native write
  fails, the promise of \<^verbatim>\<open>write\<close> rejects with the native error itself, not
  with one of the twelve tags.
\<close>

theorem write_native_failure_raw:
  "fst (write_file (JArr [JStr ''/d/a.txt'', JStr ''xy'', JNum 0]) example_unwritable)
     = Rejected (Raw ''EACCES'')
   \<and> fst (write_file (JArr [JStr ''/d/a.txt'', JStr ''xy'', JNum 0]) example_disk_error)
     = Rejected (Raw ''EIO'')"
  by code_simp

text \<open>
  C4, at the URI \<^verbatim>\<open>cdvfile://example.com/persistent/a.txt\<close>. It begins with the
  scheme and its authority is not \<^verbatim>\<open>localhost\<close>; \<^verbatim>\<open>resolveLocalFileSystemURI\<close>
  returns undefined, not a promise rejected with \<open>ENCODING_ERR\<close>, and
  issues no native call.
\<close>

theorem resolveLocalFileSystemURI_wrong_host_undefined:
  "take 7 (trim ''cdvfile://example.com/persistent/a.txt'') = ''cdvfile''
   \<and> \<not> contains ''cdvfile://localhost'' ''cdvfile://example.com/persistent/a.txt''
   \<and> fst (resolveLocalFileSystemURI example_platform
             (JArr [JStr ''cdvfile://example.com/persistent/a.txt'']) example_world)
        = Returned_undefined
   \<and> log (snd (resolveLocalFileSystemURI example_platform
             (JArr [JStr ''cdvfile://example.com/persistent/a.txt'']) example_world)) = []"
  by code_simp

text \<open>
  C5, at \<^verbatim>\<open>getMetadata\<close>, which does not call \<^verbatim>\<open>getArgs\<close>. With flat arguments
  it resolves with the metadata of the file; with the same arguments wrapped
  in one more array the path it hands to \<^verbatim>\<open>fs.stat\<close> is an array, and the
  promise rejects with the \<^verbatim>\<open>TypeError\<close> of that call. \<^verbatim>\<open>remove\<close>, which calls
  \<^verbatim>\<open>getArgs\<close>, accepts the wrapped arguments.
\<close>

theorem getMetadata_wrapped_arguments_rejected:
  "fst (getMetadata (JArr [JStr ''/d/a.txt'']) example_world) = Resolved 3
   \<and> fst (getMetadata (JArr [JArr [JStr ''/d/a.txt'']]) example_world) = Rejected (Raw ''TypeError'')
   \<and> log (snd (getMetadata (JArr [JArr [JStr ''/d/a.txt'']]) example_world)) = [Settled]
   \<and> fst (remove (JArr [JArr [JStr ''/d/a.txt'']]) example_world) = Resolved ()"
  by code_simp

text \<open>
  C6, as the code has it. \<^verbatim>\<open>write(path, data, position)\<close> with falsy data
  (absent, null, the empty string, zero, false) rejects with
  \<open>INVALID_MODIFICATION_ERR\<close> and issues no native call: the filesystem and
  the handles are as before, and the log gains the settlement only. This
  holds for flat and for wrapped arguments.
\<close>

theorem write_falsy_data_rejected:
  assumes "falsy (js_index (getArgs args) 1)"
  shows "write_file args w = (Rejected (Tag INVALID_MODIFICATION_ERR), settle w)"
  using assms by (simp add: write_file_def Let_def reject_def)

theorem write_falsy_data_rejected_witness:
  "falsy (js_index (getArgs (JArr [JStr ''/d/a.txt'', JStr [], JNum 0])) 1)
   \<and> write_file (JArr [JStr ''/d/a.txt'', JStr [], JNum 0]) example_world
         = (Rejected (Tag INVALID_MODIFICATION_ERR), settle example_world)"
proof -
  have h: "falsy (js_index (getArgs (JArr [JStr ''/d/a.txt'', JStr [], JNum 0])) 1)" by simp
  show ?thesis using write_falsy_data_rejected [OF h] h by simp
qed

text \<open>
  C6 as stated fails for data that is empty without being falsy: the empty
  array passes the test \<^verbatim>\<open>!data\<close>, a handle is opened in append mode, the
  file is created, zero bytes are written and the promise resolves with 0.
\<close>

theorem write_empty_array_counterexample:
  "\<not> falsy (JArr [])
   \<and> fst (write_file (JArr [JStr ''/d/new.txt'', JArr [], JNum 0]) example_world) = Resolved 0
   \<and> log (snd (write_file (JArr [JStr ''/d/new.txt'', JArr [], JNum 0]) example_world))
         = [Native (SOpen ''/d/new.txt'' ''a''), Native (SWrite 3), Native (SClose 3), Settled]
   \<and> map_of (nodes example_world) ''/d/new.txt'' = None
   \<and> map_of (nodes (snd (write_file (JArr [JStr ''/d/new.txt'', JArr [], JNum 0]) example_world)))
         ''/d/new.txt'' = Some (File [])"
  by code_simp

text \<open>
  C7. For a source path and a destination given as strings: when the copy
  step of \<^verbatim>\<open>moveTo\<close> resolves and its remove step rejects, \<^verbatim>\<open>moveTo\<close> rejects
  with the rejection of the remove step (\<open>NOT_FOUND_ERR\<close> or
  \<open>NO_MODIFICATION_ALLOWED_ERR\<close>), the remove step has changed no node, and
  the destination is a file with the content the source had. When \<^verbatim>\<open>moveTo\<close>
  resolves, it resolves with the entry \<^verbatim>\<open>copyTo\<close> resolved with, which is the
  file entry of the destination path, and the source path no longer exists.
\<close>

theorem moveTo_copy_then_remove:
  assumes args: "args = JArr [JStr src, JStr dstDir, JStr dstName]"
  shows "(\<forall>e w1 r w2.
            copyTo args w = (Resolved e, w1) \<and> remove (JArr [JStr src]) w1 = (Rejected r, w2) \<longrightarrow>
              moveTo args w = (Rejected r, settle w2)
              \<and> (r = Tag NOT_FOUND_ERR \<or> r = Tag NO_MODIFICATION_ALLOWED_ERR)
              \<and> nodes w2 = nodes w1
              \<and> (\<exists>c. lookup w src = Inr (File c)
                     \<and> lookup (settle w2) (dstDir @ dstName) = Inr (File c)))
       \<and> (\<forall>e w'.
            moveTo args w = (Resolved e, w') \<longrightarrow>
              fst (copyTo args w) = Resolved e
              \<and> e = FileEntry (basename (dstDir @ dstName)) (dstDir @ dstName)
              \<and> lookup w' src = Inl ''ENOENT'')"
proof (intro conjI allI impI)
  fix e w1 r w2
  assume a: "copyTo args w = (Resolved e, w1) \<and> remove (JArr [JStr src]) w1 = (Rejected r, w2)"
  then show "moveTo args w = (Rejected r, settle w2)"
    by (simp add: moveTo_def args Let_def)
  from a remove_rejected [of src w1 r w2]
  have n: "nodes w2 = nodes w1" and "r = Tag NOT_FOUND_ERR \<or> r = Tag NO_MODIFICATION_ALLOWED_ERR"
    by simp_all
  then show "r = Tag NOT_FOUND_ERR \<or> r = Tag NO_MODIFICATION_ALLOWED_ERR" and "nodes w2 = nodes w1"
    by simp_all
  from a copyTo_resolved [of src dstDir dstName w e w1] obtain c where
    c: "lookup w src = Inr (File c)" "lookup w1 (dstDir @ dstName) = Inr (File c)"
    by (auto simp: args)
  have "lookup (settle w2) (dstDir @ dstName) = lookup w1 (dstDir @ dstName)"
    by (rule lookup_cong_nodes) (simp add: n)
  with c show "\<exists>c. lookup w src = Inr (File c)
                 \<and> lookup (settle w2) (dstDir @ dstName) = Inr (File c)"
    by simp
next
  fix e w'
  assume m: "moveTo args w = (Resolved e, w')"
  obtain oc w1 where oc: "copyTo args w = (oc, w1)" by (cases "copyTo args w")
  obtain orm w2 where orm: "remove (JArr [JStr src]) w1 = (orm, w2)"
    by (cases "remove (JArr [JStr src]) w1")
  from m oc orm have "oc = Resolved e \<and> (\<exists>u. orm = Resolved u) \<and> w' = settle w2"
    by (cases oc; cases orm)
       (auto simp: moveTo_def args Let_def resolve_def reject_raw_def)
  then obtain u where oce: "oc = Resolved e" and ormu: "orm = Resolved u" and w': "w' = settle w2"
    by blast
  from oc oce show "fst (copyTo args w) = Resolved e" by simp
  from oc oce copyTo_resolved [of src dstDir dstName w e w1] obtain c where
    e: "e = FileEntry (basename (dstDir @ dstName)) (dstDir @ dstName)"
    and c: "lookup w1 src = Inr (File c)"
    by (auto simp: args)
  from e show "e = FileEntry (basename (dstDir @ dstName)) (dstDir @ dstName)" .
  from remove_resolved [OF orm [unfolded ormu] c] w'
  show "lookup w' src = Inl ''ENOENT''" by simp
qed

theorem moveTo_copy_then_remove_witness:
  "move_args = JArr [JStr ''/d/a.txt'', JStr ''/d/sub/'', JStr ''b.txt'']
   \<and> fst (copyTo move_args example_denied) = Resolved (FileEntry ''b.txt'' ''/d/sub/b.txt'')
   \<and> fst (remove (JArr [JStr ''/d/a.txt'']) (snd (copyTo move_args example_denied)))
        = Rejected (Tag NO_MODIFICATION_ALLOWED_ERR)
   \<and> fst (moveTo move_args example_denied) = Rejected (Tag NO_MODIFICATION_ALLOWED_ERR)
   \<and> lookup (snd (moveTo move_args example_denied)) (''/d/sub/'' @ ''b.txt'') = Inr (File ''abc'')
   \<and> fst (moveTo move_args example_world) = Resolved (FileEntry ''b.txt'' ''/d/sub/b.txt'')
   \<and> lookup (snd (moveTo move_args example_world)) ''/d/a.txt'' = Inl ''ENOENT''"
proof -
  have a: "move_args = JArr [JStr ''/d/a.txt'', JStr ''/d/sub/'', JStr ''b.txt'']"
    by (simp add: move_args_def)
  have c1: "fst (copyTo move_args example_denied) = Resolved (FileEntry ''b.txt'' ''/d/sub/b.txt'')"
    by code_simp
  have r1: "fst (remove (JArr [JStr ''/d/a.txt'']) (snd (copyTo move_args example_denied)))
        = Rejected (Tag NO_MODIFICATION_ALLOWED_ERR)"
    by code_simp
  have src: "lookup example_denied ''/d/a.txt'' = Inr (File ''abc'')"
    by code_simp
  have m2: "fst (moveTo move_args example_world) = Resolved (FileEntry ''b.txt'' ''/d/sub/b.txt'')"
    by code_simp
  let ?w1 = "snd (copyTo move_args example_denied)"
  let ?w2 = "snd (remove (JArr [JStr ''/d/a.txt'']) ?w1)"
  from c1 r1 have h: "copyTo move_args example_denied = (Resolved (FileEntry ''b.txt'' ''/d/sub/b.txt''), ?w1)
      \<and> remove (JArr [JStr ''/d/a.txt'']) ?w1 = (Rejected (Tag NO_MODIFICATION_ALLOWED_ERR), ?w2)"
    by (simp add: prod_eq_iff)
  from moveTo_copy_then_remove [OF a, of example_denied] h
  have d: "moveTo move_args example_denied = (Rejected (Tag NO_MODIFICATION_ALLOWED_ERR), settle ?w2)"
    and "\<exists>c. lookup example_denied ''/d/a.txt'' = Inr (File c)
            \<and> lookup (settle ?w2) (''/d/sub/'' @ ''b.txt'') = Inr (File c)"
    by blast+
  with src have l: "lookup (snd (moveTo move_args example_denied)) (''/d/sub/'' @ ''b.txt'') = Inr (File ''abc'')"
    by auto
  from m2 have "moveTo move_args example_world
      = (Resolved (FileEntry ''b.txt'' ''/d/sub/b.txt''), snd (moveTo move_args example_world))"
    by (simp add: prod_eq_iff)
  with moveTo_copy_then_remove [OF a, of example_world]
  have "lookup (snd (moveTo move_args example_world)) ''/d/a.txt'' = Inl ''ENOENT''"
    by blast
  with a c1 r1 d l m2 show ?thesis by simp
qed

text \<open>
  C8, at the URI \<^verbatim>\<open>cdvfile://localhost/other/temporary/a.txt\<close>. It has the
  expected scheme and host, and its class token, \<^verbatim>\<open>other\<close>, is none of
  \<^verbatim>\<open>application\<close>, \<^verbatim>\<open>persistent\<close>, \<^verbatim>\<open>temporary\<close>. The source searches the whole
  URI for the three words, not the segment after the host: it finds
  \<^verbatim>\<open>temporary\<close> further on, resolves the rest against the temporary directory,
  probes \<^verbatim>\<open>/tmp/a.txt\<close> and rejects with \<open>NOT_FOUND_ERR\<close>, where the claim asks
  for \<open>ENCODING_ERR\<close> and no probe.
\<close>

theorem resolveLocalFileSystemURI_unknown_class_token_probed:
  "spec_class_token ''cdvfile://localhost/other/temporary/a.txt'' = Some ''other''
   \<and> ''other'' \<noteq> ''application'' \<and> ''other'' \<noteq> ''persistent'' \<and> ''other'' \<noteq> ''temporary''
   \<and> fst (resolveLocalFileSystemURI example_platform
             (JArr [JStr ''cdvfile://localhost/other/temporary/a.txt'']) example_world)
        = Rejected (Tag NOT_FOUND_ERR)
   \<and> log (snd (resolveLocalFileSystemURI example_platform
             (JArr [JStr ''cdvfile://localhost/other/temporary/a.txt'']) example_world))
        = [Native (SStat ''/tmp/a.txt''), Settled]"
  by code_simp

text \<open>
  C9, at \<^verbatim>\<open>readAs\<close>. Reading the three bytes of \<^verbatim>\<open>/d/a.txt\<close> settles the promise
  before the handle is closed: in the log the settlement comes between the
  read and the close. With an end position below the start position the
  handle is opened, \<^verbatim>\<open>Buffer.alloc\<close> throws, the promise is never settled and
  the handle stays open.
\<close>

theorem readAs_settles_before_close:
  "fst (readAsText (JArr [JStr ''/d/a.txt'', JStr ''utf8'', JNum 0, JNum 3]) example_world)
     = Resolved (Text ''utf8'' ''abc'')
   \<and> log (snd (readAsText (JArr [JStr ''/d/a.txt'', JStr ''utf8'', JNum 0, JNum 3]) example_world))
     = [Native (SOpen ''/d/a.txt'' ''r''), Native (SRead 3), Settled, Native (SClose 3)]
   \<and> fst (readAsArrayBuffer (JArr [JStr ''/d/a.txt'', JNum 3, JNum 0]) example_world) = Never_settled
   \<and> handles (snd (readAsArrayBuffer (JArr [JStr ''/d/a.txt'', JNum 3, JNum 0]) example_world))
     = [(3, ''/d/a.txt'')]"
  by code_simp

text \<open>
  C10. When \<open>p + n\<close> is an existing directory,
  \<^verbatim>\<open>getDirectory(p, n, {create: true, exclusive: false})\<close> resolves with the
  entry of that directory, and the state after it differs from the state
  before by the log of the probe and of the settlement only: no node and no
  handle changes. \<^verbatim>\<open>getFile\<close> under the same flags on an existing file opens
  it with \<^verbatim>\<open>'w'\<close>, which leaves it empty.
\<close>

theorem getDirectory_existing_no_mutation:
  assumes "faults w (SStat (p @ n)) = None"
      and "js_get options ''create'' = JBool True"
      and "js_get options ''exclusive'' \<noteq> JBool True"
  shows "(lookup w (p @ n) = Inr Dir \<longrightarrow>
            getDirectory (JArr [JStr p, JStr n, options]) w
              = (Resolved (DirectoryEntry (basename (p @ n)) (p @ n)),
                 settle (trace (SStat (p @ n)) w)))
       \<and> (lookup w (p @ n) = Inr (File c) \<and> faults w (SOpen (p @ n) ''w'') = None \<longrightarrow>
            map_of (nodes (snd (getFile (JArr [JStr p, JStr n, options]) w))) (norm_path (p @ n))
              = Some (File []))"
proof (intro conjI impI)
  assume "lookup w (p @ n) = Inr Dir"
  then show "getDirectory (JArr [JStr p, JStr n, options]) w
              = (Resolved (DirectoryEntry (basename (p @ n)) (p @ n)),
                 settle (trace (SStat (p @ n)) w))"
    using assms or_empty_create [OF assms(2)]
    by (simp add: getDirectory_def fs_stat_ok Let_def is_true_def resolve_def)
next
  assume a: "lookup w (p @ n) = Inr (File c) \<and> faults w (SOpen (p @ n) ''w'') = None"
  let ?w1 = "trace (SStat (p @ n)) w"
  have g: "getFile (JArr [JStr p, JStr n, options]) w = createFile (p @ n) ?w1"
    using a assms or_empty_create [OF assms(2)]
    by (simp add: getFile_def fs_stat_ok Let_def is_true_def)
  from a have "faults ?w1 (SOpen (p @ n) ''w'') = None" "lookup ?w1 (p @ n) = Inr (File c)"
    by simp_all
  from fs_open_truncates [OF this]
  obtain fd w2 where "fs_open (p @ n) ''w'' ?w1 = (Inr fd, w2)"
    and "map_of (nodes w2) (norm_path (p @ n)) = Some (File [])" by blast
  then show "map_of (nodes (snd (getFile (JArr [JStr p, JStr n, options]) w))) (norm_path (p @ n))
              = Some (File [])"
    by (simp add: g nodes_createFile)
qed

theorem getDirectory_existing_no_mutation_witness:
  "faults example_world (SStat (''/d/'' @ ''sub'')) = None
   \<and> js_get create_only ''create'' = JBool True
   \<and> js_get create_only ''exclusive'' \<noteq> JBool True
   \<and> lookup example_world (''/d/'' @ ''sub'') = Inr Dir
   \<and> getDirectory (JArr [JStr ''/d/'', JStr ''sub'', create_only]) example_world
         = (Resolved (DirectoryEntry ''sub'' ''/d/sub''),
            settle (trace (SStat ''/d/sub'') example_world))
   \<and> lookup example_world (''/d/'' @ ''a.txt'') = Inr (File ''abc'')
   \<and> faults example_world (SOpen (''/d/'' @ ''a.txt'') ''w'') = None
   \<and> map_of (nodes (snd (getFile (JArr [JStr ''/d/'', JStr ''a.txt'', create_only]) example_world)))
         ''/d/a.txt'' = Some (File [])"
proof -
  have h1: "faults example_world (SStat (''/d/'' @ ''sub'')) = None" by simp
  have h2: "js_get create_only ''create'' = JBool True" by (simp add: create_only_def)
  have h3: "js_get create_only ''exclusive'' \<noteq> JBool True" by (simp add: create_only_def)
  have h4: "lookup example_world (''/d/'' @ ''sub'') = Inr Dir" by simp
  have f1: "faults example_world (SStat (''/d/'' @ ''a.txt'')) = None" by simp
  have f2: "lookup example_world (''/d/'' @ ''a.txt'') = Inr (File ''abc'')" by simp
  have f3: "faults example_world (SOpen (''/d/'' @ ''a.txt'') ''w'') = None" by simp
  have b: "basename ''/d/sub'' = ''sub''" "norm_path ''/d/a.txt'' = ''/d/a.txt''"
    by (simp_all add: basename_def norm_path_def)
  show ?thesis
    using getDirectory_existing_no_mutation [OF h1 h2 h3, of "[]"]
      getDirectory_existing_no_mutation [OF f1 h2 h3, of "''abc''"]
      h1 h2 h3 h4 f2 f3 b
    by simp
qed

end
